theory Spec2Isabelle
  imports Complex_Main
begin

section \<open>Errors and tensors\<close>

text \<open>
  The Python exceptions that the code of \<^verbatim>\<open>dit.py\<close> can raise. A function that can raise
  returns \<open>py_error + 'a\<close>, with \<open>Inl\<close> for the exception.
\<close>

datatype py_error =
    NotImplementedError
  | ValueError
  | AssertionError
  | TypeError
  | NameError
  | AttributeError
  | RuntimeError
  | IndexError
  | ZeroDivisionError

definition thenR :: "py_error + 'a \<Rightarrow> ('a \<Rightarrow> py_error + 'b) \<Rightarrow> py_error + 'b" where
  "thenR r f = (case r of Inl e \<Rightarrow> Inl e | Inr v \<Rightarrow> f v)"

text \<open>
  A tensor is its shape and its elements in row-major order, as a contiguous torch or
  numpy array stores them. Elements are real numbers: floating-point rounding, infinities
  and NaN are outside the model.
\<close>

record tensor =
  shape :: "nat list"
  data :: "real list"

definition wf :: "tensor \<Rightarrow> bool" where
  "wf T = (length (data T) = prod_list (shape T))"

definition ndim :: "tensor \<Rightarrow> nat" where
  "ndim T = length (shape T)"

text \<open>Row-major index arithmetic: a flat position and its multi-index.\<close>

fun unravel :: "nat list \<Rightarrow> nat \<Rightarrow> nat list" where
  "unravel [] i = []"
| "unravel (d # ds) i = (i div prod_list ds) # unravel ds (i mod prod_list ds)"

fun ravel :: "nat list \<Rightarrow> nat list \<Rightarrow> nat" where
  "ravel [] idx = 0"
| "ravel (d # ds) [] = 0"
| "ravel (d # ds) (i # idx) = i * prod_list ds + ravel ds idx"

text \<open>\<^verbatim>\<open>reshape\<close> and \<open>view\<close>: the same elements under a shape of the same size.\<close>

definition reshape :: "tensor \<Rightarrow> nat list \<Rightarrow> py_error + tensor" where
  "reshape T sh =
     (if prod_list sh = prod_list (shape T) then Inr \<lparr>shape = sh, data = data T\<rparr>
      else Inl RuntimeError)"

text \<open>
  \<^verbatim>\<open>permute\<close>: output axis \<open>k\<close> is input axis \<open>p ! k\<close>. The element at an output
  multi-index is read at the input multi-index that has, on axis \<open>p ! k\<close>, the output's
  coordinate \<open>k\<close>.
\<close>

definition axis_pos :: "nat list \<Rightarrow> nat \<Rightarrow> nat" where
  "axis_pos p a = length (takeWhile (\<lambda>b. b \<noteq> a) p)"

definition permute :: "nat list \<Rightarrow> tensor \<Rightarrow> tensor" where
  "permute p T =
     (let sh = map (\<lambda>a. shape T ! a) p in
      \<lparr>shape = sh,
       data = map (\<lambda>j. data T ! ravel (shape T)
                          (map (\<lambda>a. unravel sh j ! axis_pos p a) [0..<length p]))
                  [0..<prod_list sh]\<rparr>)"

text \<open>
  \<^verbatim>\<open>int(n ** 0.5)\<close> on a non-negative integer: the integer part of the square root,
  counted as the number of \<open>k\<close> in \<open>1..n\<close> whose square is at most \<open>n\<close>.
\<close>

definition int_sqrt :: "nat \<Rightarrow> nat" where
  "int_sqrt n = length (filter (\<lambda>k. k * k \<le> n) [1..<Suc n])"

section \<open>The modules of the model\<close>

record Linear =
  weight :: tensor
  bias :: "tensor option"

text \<open>
  \<^verbatim>\<open>timm\<close>'s \<^verbatim>\<open>PatchEmbed\<close>: the attributes the model reads. Its forward pass belongs to
  the library.
\<close>

record PatchEmbed =
  pe_patch_size :: "nat \<times> nat"
  num_patches :: nat
  proj_weight :: tensor
  proj_bias :: tensor

text \<open>\<^verbatim>\<open>timm\<close>'s \<^verbatim>\<open>Mlp\<close>: its two linear layers. Its forward pass belongs to the library.\<close>

record Mlp =
  fc1 :: Linear
  fc2 :: Linear

record Attention =
  num_heads :: nat
  head_dim :: nat
  scale :: real
  attention_mode :: string
  attention_pe_mode :: "string option"
  qkv :: Linear
  attn_drop :: real
  proj :: Linear
  proj_drop :: real
  hw :: "nat \<times> nat"
  rope :: "tensor \<Rightarrow> py_error + tensor"
  attn_training :: bool

record TimestepEmbedder =
  mlp_0 :: Linear
  mlp_2 :: Linear
  frequency_embedding_size :: nat

record LabelEmbedder =
  embedding_table :: tensor
  num_classes :: nat
  dropout_prob :: real

record DiTBlock =
  norm1 :: nat
  attn :: Attention
  norm2 :: nat
  mlp :: Mlp
  adaLN_modulation :: Linear

record FinalLayer =
  norm_final :: nat
  linear :: Linear
  final_adaLN_modulation :: Linear

record DiT =
  gradient_checkpointing :: bool
  learn_sigma :: bool
  in_channels :: nat
  out_channels :: nat
  patch_size :: nat
  patch_size_t :: nat
  dit_num_heads :: nat
  extras :: nat
  hidden_size :: nat
  x_embedder :: PatchEmbed
  t_embedder :: TimestepEmbedder
  y_embedder :: "LabelEmbedder option"
  pos_embed :: tensor
  temp_embed :: tensor
  blocks :: "DiTBlock list"
  final_layer :: FinalLayer
  training :: bool
  self_t :: "nat option"

text \<open>
  What the code takes from outside \<^verbatim>\<open>dit.py\<close>: whether the optional kernels could be
  imported, torch's fused attention, the forward passes of \<^verbatim>\<open>timm\<close>'s modules, the random
  initialisers, and the uniform samples torch draws for dropout.
\<close>

datatype sdp_kernel = MemEfficient | Flash

record library =
  rebased_available :: bool
  ring_available :: bool
  scaled_dot_product_attention ::
    "sdp_kernel \<Rightarrow> tensor \<Rightarrow> tensor \<Rightarrow> tensor \<Rightarrow> tensor option \<Rightarrow> real \<Rightarrow> real \<Rightarrow> py_error + tensor"
  patch_embed_forward :: "PatchEmbed \<Rightarrow> tensor \<Rightarrow> py_error + tensor"
  mlp_forward :: "Mlp \<Rightarrow> tensor \<Rightarrow> py_error + tensor"
  xavier_uniform :: "nat list \<Rightarrow> tensor"
  normal :: "real \<Rightarrow> nat list \<Rightarrow> tensor"
  attn_noise :: "nat \<Rightarrow> real"
  proj_noise :: "nat \<Rightarrow> real"
  label_noise :: "nat \<Rightarrow> real"

section \<open>Unpatchify\<close>

text \<open>
  \<^verbatim>\<open>DiT.unpatchify\<close>. \<^verbatim>\<open>x.shape[1]\<close> needs two axes; the assertion compares the squared
  integer root with the sequence length; \<^verbatim>\<open>einsum('nhwpqc->nchpwq')\<close> is the permutation
  that takes output axes from input axes 0, 5, 1, 3, 2, 4.
\<close>

definition unpatchify :: "DiT \<Rightarrow> tensor \<Rightarrow> py_error + tensor" where
  "unpatchify m x =
     (let c = out_channels m;
          p = fst (pe_patch_size (x_embedder m))
      in if length (shape x) < 2 then Inl IndexError
         else
           let h = int_sqrt (shape x ! 1); w = h
           in if h * w \<noteq> shape x ! 1 then Inl AssertionError
              else thenR (reshape x [shape x ! 0, h, w, p, p, c]) (\<lambda>x1.
                   let x2 = permute [0, 5, 1, 3, 2, 4] x1
                   in reshape x2 [shape x2 ! 0, c, h * p, h * p]))"

section \<open>Label embedding\<close>

text \<open>
  \<^verbatim>\<open>LabelEmbedder.__init__\<close>: the table has one more row, for the unconditional id, when
  the dropout probability is positive. \<^verbatim>\<open>nn.Embedding\<close> draws its rows from a standard
  normal distribution.
\<close>

definition LabelEmbedder_init :: "library \<Rightarrow> nat \<Rightarrow> nat \<Rightarrow> real \<Rightarrow> LabelEmbedder" where
  "LabelEmbedder_init lib n_classes hidden p =
     (let use_cfg_embedding = (p > 0)
      in \<lparr>embedding_table = normal lib 1 [n_classes + (if use_cfg_embedding then 1 else 0), hidden],
          num_classes = n_classes,
          dropout_prob = p\<rparr>)"

text \<open>
  \<^verbatim>\<open>torch.where(cond, value, labels)\<close> on one-dimensional operands: equal lengths, or one
  of them of length one and broadcast; any other pair of lengths is an error.
\<close>

definition where_scalar :: "bool list \<Rightarrow> int \<Rightarrow> int list \<Rightarrow> py_error + int list" where
  "where_scalar c v xs =
     (if length c = length xs then Inr (map2 (\<lambda>b x. if b then v else x) c xs)
      else if length c = 1 then Inr (map (\<lambda>x. if hd c then v else x) xs)
      else if length xs = 1 then Inr (map (\<lambda>b. if b then v else hd xs) c)
      else Inl RuntimeError)"

text \<open>
  \<^verbatim>\<open>LabelEmbedder.token_drop\<close>. \<^verbatim>\<open>torch.rand\<close> draws one uniform sample of \<open>[0, 1)\<close>
  per label; the library record holds the samples.
\<close>

definition token_drop :: "library \<Rightarrow> LabelEmbedder \<Rightarrow> int list \<Rightarrow> int list option \<Rightarrow> py_error + int list" where
  "token_drop lib e labels force_drop_ids =
     (let drop_ids =
            (case force_drop_ids of
               None \<Rightarrow> map (\<lambda>i. label_noise lib i < dropout_prob e) [0..<length labels]
             | Some f \<Rightarrow> map (\<lambda>v. v = 1) f)
      in where_scalar drop_ids (int (num_classes e)) labels)"

text \<open>\<^verbatim>\<open>nn.Embedding\<close>: the rows of the table at the given indices.\<close>

definition embedding :: "tensor \<Rightarrow> int list \<Rightarrow> py_error + tensor" where
  "embedding table labels =
     (case shape table of
        [rows, width] \<Rightarrow>
          if list_ex (\<lambda>l. l < 0 \<or> int rows \<le> l) labels then Inl IndexError
          else Inr \<lparr>shape = [length labels, width],
                    data = concat (map (\<lambda>l. take width (drop (nat l * width) (data table))) labels)\<rparr>
      | _ \<Rightarrow> Inl RuntimeError)"

text \<open>
  \<^verbatim>\<open>LabelEmbedder.forward\<close>, in two steps: the labels after the optional drop, then
  their rows of the table.
\<close>

definition forward_labels :: "library \<Rightarrow> LabelEmbedder \<Rightarrow> int list \<Rightarrow> bool \<Rightarrow> int list option \<Rightarrow> py_error + int list" where
  "forward_labels lib e labels train force_drop_ids =
     (let use_dropout = (dropout_prob e > 0)
      in if (train \<and> use_dropout) \<or> force_drop_ids \<noteq> None
         then token_drop lib e labels force_drop_ids
         else Inr labels)"

definition LabelEmbedder_forward :: "library \<Rightarrow> LabelEmbedder \<Rightarrow> int list \<Rightarrow> bool \<Rightarrow> int list option \<Rightarrow> py_error + tensor" where
  "LabelEmbedder_forward lib e labels train force_drop_ids =
     thenR (forward_labels lib e labels train force_drop_ids) (embedding (embedding_table e))"

section \<open>Elementwise maps, concatenation and slices\<close>

text \<open>A function applied to every element; \<^verbatim>\<open>zeros_like\<close>.\<close>

definition tmap :: "(real \<Rightarrow> real) \<Rightarrow> tensor \<Rightarrow> tensor" where
  "tmap f T = \<lparr>shape = shape T, data = map f (data T)\<rparr>"

definition zeros_like :: "tensor \<Rightarrow> tensor" where
  "zeros_like T = tmap (\<lambda>v. 0) T"

text \<open>
  The outer product of two vectors (\<^verbatim>\<open>t[:, None] * freqs[None]\<close>,
  \<^verbatim>\<open>einsum('m,d->md', pos, omega)\<close>).
\<close>

definition outer :: "real list \<Rightarrow> real list \<Rightarrow> tensor" where
  "outer xs ys = \<lparr>shape = [length xs, length ys], data = concat (map (\<lambda>x. map (\<lambda>y. x * y) ys) xs)\<rparr>"

text \<open>
  Along axis \<open>d\<close> a tensor is a sequence of \<open>prod (take d shape)\<close> pieces, each of
  \<open>shape ! d\<close> times \<open>prod (drop (d + 1) shape)\<close> elements. \<open>chunks k n xs\<close> are the first
  \<open>k\<close> pieces of length \<open>n\<close> of \<open>xs\<close>.
\<close>

definition chunks :: "nat \<Rightarrow> nat \<Rightarrow> 'a list \<Rightarrow> 'a list list" where
  "chunks k n xs = map (\<lambda>i. take n (drop (i * n) xs)) [0..<k]"

text \<open>
  \<^verbatim>\<open>cat([A, B], dim=d)\<close>: the shapes agree off axis \<open>d\<close>; the pieces of \<open>A\<close> and
  \<open>B\<close> alternate.
\<close>

definition cat :: "nat \<Rightarrow> tensor \<Rightarrow> tensor \<Rightarrow> py_error + tensor" where
  "cat d A B =
     (if length (shape A) \<noteq> length (shape B) \<or> length (shape A) \<le> d
         \<or> (shape A)[d := 0] \<noteq> (shape B)[d := 0]
      then Inl RuntimeError
      else
        let outer_n = prod_list (take d (shape A));
            inner = prod_list (drop (Suc d) (shape A));
            a = shape A ! d;
            b = shape B ! d
        in Inr \<lparr>shape = (shape A)[d := a + b],
                  data = concat (map2 (@) (chunks outer_n (a * inner) (data A))
                                           (chunks outer_n (b * inner) (data B)))\<rparr>)"

text \<open>
  The slice \<^verbatim>\<open>start:stop\<close> on axis \<open>d\<close>, all of the other axes; Python clamps the bounds
  to the size of the axis.
\<close>

definition slice_axis :: "nat \<Rightarrow> nat \<Rightarrow> nat \<Rightarrow> tensor \<Rightarrow> py_error + tensor" where
  "slice_axis d start stop T =
     (if length (shape T) \<le> d then Inl IndexError
      else
        let n = shape T ! d;
            lo = min start n;
            hi = max lo (min stop n);
            outer_n = prod_list (take d (shape T));
            inner = prod_list (drop (Suc d) (shape T))
        in Inr \<lparr>shape = (shape T)[d := hi - lo],
                  data = concat (map (\<lambda>blk. take ((hi - lo) * inner) (drop (lo * inner) blk))
                                     (chunks outer_n (n * inner) (data T)))\<rparr>)"

section \<open>Timestep embedding\<close>

text \<open>
  \<^verbatim>\<open>TimestepEmbedder.timestep_embedding\<close>, on a vector of timesteps. \<^verbatim>\<open>math.log\<close>
  raises on a non-positive period. The padding column is
  \<^verbatim>\<open>zeros_like(embedding[:, :1])\<close>: as wide as the first column of the embedding is.
\<close>

definition timestep_embedding :: "real list \<Rightarrow> nat \<Rightarrow> real \<Rightarrow> py_error + tensor" where
  "timestep_embedding t dm max_period =
     (if max_period \<le> 0 then Inl ValueError
      else
        let half = dm div 2;
            freqs = map (\<lambda>i. exp (- ln max_period * real i / real half)) [0..<half];
            args = outer t freqs
        in thenR (cat 1 (tmap cos args) (tmap sin args)) (\<lambda>embedding.
           if dm mod 2 \<noteq> 0
           then thenR (slice_axis 1 0 1 embedding) (\<lambda>col. cat 1 embedding (zeros_like col))
           else Inr embedding))"

section \<open>Sine and cosine position embeddings\<close>

text \<open>
  \<^verbatim>\<open>get_1d_sincos_pos_embed_from_grid\<close>. The assertion wants an even dimension;
  \<^verbatim>\<open>pos.reshape(-1)\<close> is the elements of \<open>pos\<close> in order.
\<close>

definition get_1d_sincos_pos_embed_from_grid :: "nat \<Rightarrow> tensor \<Rightarrow> py_error + tensor" where
  "get_1d_sincos_pos_embed_from_grid embed_dim pos =
     (if embed_dim mod 2 \<noteq> 0 then Inl AssertionError
      else
        let omega = map real [0..<embed_dim div 2];
            omega = map (\<lambda>w. w / (real embed_dim / 2)) omega;
            omega = map (\<lambda>w. 1 / (10000 powr w)) omega;
            pos = data pos;
            out = outer pos omega;
            emb_sin = tmap sin out;
            emb_cos = tmap cos out
        in cat 1 emb_sin emb_cos)"

text \<open>\<^verbatim>\<open>T[i]\<close>: the \<open>i\<close>-th piece along the first axis.\<close>

definition select0 :: "tensor \<Rightarrow> nat \<Rightarrow> py_error + tensor" where
  "select0 T i =
     (case shape T of
        [] \<Rightarrow> Inl IndexError
      | n # sh \<Rightarrow>
          if n \<le> i then Inl IndexError
          else Inr \<lparr>shape = sh, data = take (prod_list sh) (drop (i * prod_list sh) (data T))\<rparr>)"

text \<open>\<^verbatim>\<open>get_2d_sincos_pos_embed_from_grid\<close>: each half of the dimension encodes one grid.\<close>

definition get_2d_sincos_pos_embed_from_grid :: "nat \<Rightarrow> tensor \<Rightarrow> py_error + tensor" where
  "get_2d_sincos_pos_embed_from_grid embed_dim grid =
     (if embed_dim mod 2 \<noteq> 0 then Inl AssertionError
      else
        thenR (select0 grid 0) (\<lambda>grid0.
        thenR (get_1d_sincos_pos_embed_from_grid (embed_dim div 2) grid0) (\<lambda>emb_h.
        thenR (select0 grid 1) (\<lambda>grid1.
        thenR (get_1d_sincos_pos_embed_from_grid (embed_dim div 2) grid1) (\<lambda>emb_w.
        cat 1 emb_h emb_w)))))"

text \<open>
  \<^verbatim>\<open>get_2d_sincos_pos_embed\<close>. \<^verbatim>\<open>meshgrid(grid_w, grid_h)\<close> gives the column index of
  every cell, then the row index of every cell; stacked and reshaped to
  \<open>(2, 1, grid_size, grid_size)\<close>.
\<close>

definition get_2d_sincos_pos_embed :: "nat \<Rightarrow> nat \<Rightarrow> bool \<Rightarrow> nat \<Rightarrow> py_error + tensor" where
  "get_2d_sincos_pos_embed embed_dim grid_size cls_token extra_tokens =
     (let grid_h = map real [0..<grid_size];
          grid_w = map real [0..<grid_size];
          mesh_x = concat (map (\<lambda>h. grid_w) grid_h);
          mesh_y = concat (map (\<lambda>h. map (\<lambda>w. h) grid_w) grid_h);
          grid = \<lparr>shape = [2, 1, grid_size, grid_size], data = mesh_x @ mesh_y\<rparr>
      in thenR (get_2d_sincos_pos_embed_from_grid embed_dim grid) (\<lambda>pos_embed.
         if cls_token \<and> extra_tokens > 0
         then cat 0 \<lparr>shape = [extra_tokens, embed_dim], data = replicate (extra_tokens * embed_dim) 0\<rparr>
                    pos_embed
         else Inr pos_embed))"

text \<open>\<^verbatim>\<open>get_1d_sincos_temp_embed\<close>: the positions are \<open>0, \<dots>, len - 1\<close>.\<close>

definition get_1d_sincos_temp_embed :: "nat \<Rightarrow> nat \<Rightarrow> py_error + tensor" where
  "get_1d_sincos_temp_embed embed_dim len =
     (let pos = \<lparr>shape = [len, 1], data = map real [0..<len]\<rparr>
      in get_1d_sincos_pos_embed_from_grid embed_dim pos)"

section \<open>Tensor operations of the blocks\<close>

text \<open>The results of a list of steps, or the first error.\<close>

fun sequenceR :: "(py_error + 'a) list \<Rightarrow> py_error + 'a list" where
  "sequenceR [] = Inr []"
| "sequenceR (r # rs) = thenR r (\<lambda>v. thenR (sequenceR rs) (\<lambda>vs. Inr (v # vs)))"

text \<open>\<^verbatim>\<open>unsqueeze(d)\<close>: a new axis of size one at position \<open>d\<close>.\<close>

definition unsqueeze :: "nat \<Rightarrow> tensor \<Rightarrow> py_error + tensor" where
  "unsqueeze d T =
     (if length (shape T) < d then Inl IndexError
      else Inr \<lparr>shape = take d (shape T) @ [1] @ drop d (shape T), data = data T\<rparr>)"

text \<open>
  Broadcasting: shapes are aligned at the right and padded with ones at the left; two sizes
  are compatible when they are equal or one of them is one.
\<close>

definition pad_shape :: "nat \<Rightarrow> nat list \<Rightarrow> nat list" where
  "pad_shape n sh = replicate (n - length sh) 1 @ sh"

definition broadcast_shapes :: "nat list \<Rightarrow> nat list \<Rightarrow> nat list option" where
  "broadcast_shapes a b =
     (let n = max (length a) (length b);
          a' = pad_shape n a;
          b' = pad_shape n b
      in if list_all2 (\<lambda>x y. x = y \<or> x = 1 \<or> y = 1) a' b'
         then Some (map2 (\<lambda>x y. if x = 1 then y else x) a' b')
         else None)"

text \<open>
  An elementwise binary operation on two broadcast operands of equal rank: an axis of size
  one repeats its single piece.
\<close>

fun broadcast2 :: "(real \<Rightarrow> real \<Rightarrow> real) \<Rightarrow> nat list \<Rightarrow> real list \<Rightarrow> nat list \<Rightarrow> real list \<Rightarrow> real list" where
  "broadcast2 f (a # as) xs (b # bs) ys =
     concat (map (\<lambda>i. broadcast2 f
                         as (take (prod_list as) (drop ((if a = 1 then 0 else i) * prod_list as) xs))
                         bs (take (prod_list bs) (drop ((if b = 1 then 0 else i) * prod_list bs) ys)))
                 [0..<(if a = 1 then b else a)])"
| "broadcast2 f as xs bs ys = [f (hd xs) (hd ys)]"

definition tbin :: "(real \<Rightarrow> real \<Rightarrow> real) \<Rightarrow> tensor \<Rightarrow> tensor \<Rightarrow> py_error + tensor" where
  "tbin f A B =
     (case broadcast_shapes (shape A) (shape B) of
        None \<Rightarrow> Inl RuntimeError
      | Some sh \<Rightarrow>
          Inr \<lparr>shape = sh,
               data = broadcast2 f (pad_shape (length sh) (shape A)) (data A)
                                   (pad_shape (length sh) (shape B)) (data B)\<rparr>)"

text \<open>\<^verbatim>\<open>nn.Linear\<close>: every row of the input times the transposed weight, plus the bias.\<close>

definition dot :: "real list \<Rightarrow> real list \<Rightarrow> real" where
  "dot xs ys = sum_list (map2 (*) xs ys)"

definition Linear_forward :: "Linear \<Rightarrow> tensor \<Rightarrow> py_error + tensor" where
  "Linear_forward l x =
     (case shape (weight l) of
        [out_f, in_f] \<Rightarrow>
          if shape x = [] \<or> last (shape x) \<noteq> in_f then Inl RuntimeError
          else if (case bias l of None \<Rightarrow> False | Some b \<Rightarrow> shape b \<noteq> [out_f]) then Inl RuntimeError
          else
            let rows = prod_list (butlast (shape x));
                w = chunks out_f in_f (data (weight l));
                b = (case bias l of None \<Rightarrow> replicate out_f 0 | Some b \<Rightarrow> data b)
            in Inr \<lparr>shape = butlast (shape x) @ [out_f],
                      data = concat (map (\<lambda>xr. map2 (\<lambda>wr bv. dot xr wr + bv) w b)
                                         (chunks rows in_f (data x)))\<rparr>
      | _ \<Rightarrow> Inl RuntimeError)"

text \<open>
  \<^verbatim>\<open>nn.LayerNorm(n, elementwise_affine=False, eps)\<close>: every row is centred and divided by
  the root of its (biased) variance plus \<open>eps\<close>.
\<close>

definition layer_norm :: "nat \<Rightarrow> real \<Rightarrow> tensor \<Rightarrow> py_error + tensor" where
  "layer_norm n eps x =
     (if shape x = [] \<or> last (shape x) \<noteq> n then Inl RuntimeError
      else Inr \<lparr>shape = shape x,
                data = concat (map (\<lambda>row.
                           let mu = sum_list row / real n;
                               var = sum_list (map (\<lambda>v. (v - mu) ^ 2) row) / real n
                           in map (\<lambda>v. (v - mu) / sqrt (var + eps)) row)
                         (chunks (prod_list (butlast (shape x))) n (data x)))\<rparr>)"

text \<open>\<^verbatim>\<open>nn.SiLU\<close>: \<open>v\<close> times the logistic function of \<open>v\<close>.\<close>

definition silu :: "real \<Rightarrow> real" where
  "silu v = v / (1 + exp (- v))"

text \<open>
  \<^verbatim>\<open>torch.chunk(n, dim=d)\<close>: pieces of \<open>ceil (size / n)\<close> along the axis; \<open>n\<close> empty pieces
  when the axis is empty.
\<close>

definition chunk :: "nat \<Rightarrow> nat \<Rightarrow> tensor \<Rightarrow> py_error + tensor list" where
  "chunk n d T =
     (if length (shape T) \<le> d then Inl IndexError
      else
        let size = shape T ! d;
            split_size = (size + n - 1) div n;
            num = (if split_size = 0 then n else max 1 ((size + split_size - 1) div split_size))
        in sequenceR (map (\<lambda>i. slice_axis d (i * split_size) (Suc i * split_size) T) [0..<num]))"

text \<open>\<^verbatim>\<open>modulate\<close>: \<^verbatim>\<open>x * (1 + scale.unsqueeze(1)) + shift.unsqueeze(1)\<close>.\<close>

definition modulate :: "tensor \<Rightarrow> tensor \<Rightarrow> tensor \<Rightarrow> py_error + tensor" where
  "modulate x shift scl =
     thenR (unsqueeze 1 scl) (\<lambda>sc.
     thenR (tbin (*) x (tmap (\<lambda>v. 1 + v) sc)) (\<lambda>xs.
     thenR (unsqueeze 1 shift) (\<lambda>sh.
     tbin (+) xs sh)))"

section \<open>Attention\<close>

text \<open>
  \<^verbatim>\<open>view(pre, -1, post)\<close>: the missing size is the quotient; it must exist and be
  determined.
\<close>

definition view_infer :: "tensor \<Rightarrow> nat list \<Rightarrow> nat list \<Rightarrow> py_error + tensor" where
  "view_infer T pre post =
     (let known = prod_list pre * prod_list post;
          total = prod_list (shape T)
      in if known = 0 \<or> total mod known \<noteq> 0 then Inl RuntimeError
         else Inr \<lparr>shape = pre @ [total div known] @ post, data = data T\<rparr>)"

text \<open>\<^verbatim>\<open>repeat(reps)\<close>: the tensor tiled \<open>reps ! d\<close> times along every axis \<open>d\<close>.\<close>

fun tile :: "nat list \<Rightarrow> nat list \<Rightarrow> real list \<Rightarrow> real list" where
  "tile (r # rs) (d # ds) xs =
     concat (replicate r
       (concat (map (\<lambda>i. tile rs ds (take (prod_list ds) (drop (i * prod_list ds) xs))) [0..<d])))"
| "tile rs ds xs = xs"

definition repeat_t :: "nat list \<Rightarrow> tensor \<Rightarrow> py_error + tensor" where
  "repeat_t reps T =
     (if length reps < length (shape T) then Inl RuntimeError
      else
        let sh = pad_shape (length reps) (shape T)
        in Inr \<lparr>shape = map2 (*) reps sh, data = tile reps sh (data T)\<rparr>)"

text \<open>
  \<^verbatim>\<open>A @ B\<close>: the batch axes are broadcast, every \<open>n\<close> by \<open>m\<close> matrix is multiplied with
  its \<open>m\<close> by \<open>p\<close> partner.
\<close>

definition transpose_mat :: "nat \<Rightarrow> nat \<Rightarrow> real list \<Rightarrow> real list" where
  "transpose_mat n m xs = concat (map (\<lambda>j. map (\<lambda>i. xs ! (i * m + j)) [0..<n]) [0..<m])"

definition mat_mul :: "nat \<Rightarrow> nat \<Rightarrow> nat \<Rightarrow> real list \<Rightarrow> real list \<Rightarrow> real list" where
  "mat_mul n m p xs ys =
     concat (map (\<lambda>xr. map (\<lambda>yc. dot xr yc) (chunks p m (transpose_mat m p ys))) (chunks n m xs))"

definition expand :: "tensor \<Rightarrow> nat list \<Rightarrow> real list" where
  "expand T sh = broadcast2 (\<lambda>a b. a) (pad_shape (length sh) (shape T)) (data T)
                   sh (replicate (prod_list sh) 0)"

definition matmul :: "tensor \<Rightarrow> tensor \<Rightarrow> py_error + tensor" where
  "matmul A B =
     (if length (shape A) < 2 \<or> length (shape B) < 2 then Inl RuntimeError
      else
        let n = last (butlast (shape A)); m = last (shape A);
            m' = last (butlast (shape B)); p = last (shape B)
        in if m \<noteq> m' then Inl RuntimeError
           else
             (case broadcast_shapes (butlast (butlast (shape A))) (butlast (butlast (shape B))) of
                None \<Rightarrow> Inl RuntimeError
              | Some bs \<Rightarrow>
                  let k = prod_list bs;
                      xs = chunks k (n * m) (expand A (bs @ [n, m]));
                      ys = chunks k (m * p) (expand B (bs @ [m, p]))
                  in Inr \<lparr>shape = bs @ [n, p],
                            data = concat (map2 (mat_mul n m p) xs ys)\<rparr>))"

text \<open>\<^verbatim>\<open>softmax(dim=-1)\<close>: every row is exponentiated and divided by its sum.\<close>

definition softmax_last :: "tensor \<Rightarrow> tensor" where
  "softmax_last T =
     (let n = (if shape T = [] then 1 else last (shape T))
      in \<lparr>shape = shape T,
          data = concat (map (\<lambda>row. map (\<lambda>v. exp v / sum_list (map exp row)) row)
                             (chunks (prod_list (butlast (shape T))) n (data T)))\<rparr>)"

text \<open>\<^verbatim>\<open>torch.isnan\<close>: no real number is NaN. The branch of the code that tests it is kept.\<close>

definition isnan :: "real \<Rightarrow> bool" where
  "isnan v = False"

text \<open>
  \<^verbatim>\<open>nn.Dropout(p)\<close>: the identity outside training or with \<open>p = 0\<close>; in training an
  element whose uniform sample is below \<open>p\<close> becomes zero and the others are scaled by
  \<open>1 / (1 - p)\<close>.
\<close>

definition dropout :: "real \<Rightarrow> bool \<Rightarrow> (nat \<Rightarrow> real) \<Rightarrow> tensor \<Rightarrow> tensor" where
  "dropout p train noise T =
     (if train \<and> p > 0
      then \<lparr>shape = shape T,
            data = map (\<lambda>(i, v). if noise i < p then 0 else v / (1 - p))
                       (zip [0..<length (data T)] (data T))\<rparr>
      else T)"

text \<open>\<^verbatim>\<open>Attention.make_attn_bias\<close>: the two \<^verbatim>\<open>torch.where\<close> of the source.\<close>

definition make_attn_bias :: "tensor \<Rightarrow> tensor" where
  "make_attn_bias attn_mask =
     (let attn_bias = tmap (\<lambda>m. if m = 0 then - 100000000 else m) attn_mask;
          attn_bias = \<lparr>shape = shape attn_mask,
                       data = map2 (\<lambda>m b. if m = 1 then 0 else b) (data attn_mask) (data attn_bias)\<rparr>
      in attn_bias)"

text \<open>
  \<^verbatim>\<open>Attention.forward\<close>, in the order of the source: the rotary embedding of one of
  \<open>q\<close>, \<open>k\<close> (lines 86 to 88), the \<^verbatim>\<open>math\<close> branch (lines 107 to 116), the fused
  projection and its split (lines 80 and 81), the mask (lines 82 and 83), the rotary
  embedding (lines 85 to 92), the choice of the backend (lines 94 to 125), and the whole.
  \<^verbatim>\<open>raise NotImplemented\<close> raises \<^verbatim>\<open>TypeError\<close>: \<^verbatim>\<open>NotImplemented\<close> is no exception. The
  names \<^verbatim>\<open>parallel_rebased\<close> and \<^verbatim>\<open>ring_flash_attn_cuda\<close> are unbound when their import
  failed (\<^verbatim>\<open>NameError\<close>); when bound, the arguments \<^verbatim>\<open>self.eps\<close> and \<^verbatim>\<open>self.causal\<close> are
  attributes that \<^verbatim>\<open>__init__\<close> never sets (\<^verbatim>\<open>AttributeError\<close>).
\<close>

definition attention_rope :: "Attention \<Rightarrow> nat \<Rightarrow> nat \<Rightarrow> nat \<Rightarrow> tensor \<Rightarrow> py_error + tensor" where
  "attention_rope a B N C q =
     thenR (view_infer q [B, num_heads a] [fst (hw a) * snd (hw a), C div num_heads a]) (\<lambda>q_t.
     thenR (rope a q_t) (\<lambda>ro_q_t.
     reshape ro_q_t [B, num_heads a, N, C div num_heads a]))"

definition attention_math :: "library \<Rightarrow> Attention \<Rightarrow> nat \<Rightarrow> nat \<Rightarrow> nat \<Rightarrow> tensor \<Rightarrow> tensor \<Rightarrow> tensor \<Rightarrow> tensor option \<Rightarrow> py_error + tensor" where
  "attention_math lib a B N C q k v attn_mask =
     thenR (matmul q (permute [0, 1, 3, 2] k)) (\<lambda>attn.
     let attn = tmap (\<lambda>s. s * scale a) attn in
     thenR (case attn_mask of
              None \<Rightarrow> Inr attn
            | Some m \<Rightarrow> tbin (+) attn (make_attn_bias m)) (\<lambda>attn.
     let attn = softmax_last attn;
         attn = (if list_ex isnan (data attn)
                 then tmap (\<lambda>s. if isnan s then 0 else s) attn
                 else attn);
         attn = dropout (attn_drop a) (attn_training a) (attn_noise lib) attn
     in thenR (matmul attn v) (\<lambda>x.
        reshape (permute [0, 2, 1, 3] x) [B, N, C])))"

definition attention_qkv :: "Attention \<Rightarrow> tensor \<Rightarrow> nat \<Rightarrow> nat \<Rightarrow> nat \<Rightarrow> py_error + tensor \<times> tensor \<times> tensor" where
  "attention_qkv a x B N C =
     thenR (Linear_forward (qkv a) x) (\<lambda>y.
     if num_heads a = 0 then Inl ZeroDivisionError
     else
       thenR (reshape y [B, N, 3, num_heads a, C div num_heads a]) (\<lambda>y.
       let qkv = permute [2, 0, 3, 1, 4] y in
       thenR (select0 qkv 0) (\<lambda>q.
       thenR (select0 qkv 1) (\<lambda>k.
       thenR (select0 qkv 2) (\<lambda>v.
       Inr (q, k, v))))))"

definition attention_mask_repeat :: "Attention \<Rightarrow> tensor option \<Rightarrow> py_error + tensor option" where
  "attention_mask_repeat a attn_mask =
     (case attn_mask of
        None \<Rightarrow> Inr None
      | Some m \<Rightarrow> thenR (repeat_t [1, num_heads a, 1, 1] m) (\<lambda>m'. Inr (Some m')))"

definition attention_pe :: "Attention \<Rightarrow> nat \<Rightarrow> nat \<Rightarrow> nat \<Rightarrow> tensor \<Rightarrow> tensor \<Rightarrow> py_error + tensor \<times> tensor" where
  "attention_pe a B N C q k =
     (if attention_pe_mode a = Some ''2d_rope''
      then thenR (attention_rope a B N C q) (\<lambda>q'.
           thenR (attention_rope a B N C k) (\<lambda>k'.
           Inr (q', k')))
      else Inr (q, k))"

definition attention_dispatch :: "library \<Rightarrow> Attention \<Rightarrow> nat \<Rightarrow> nat \<Rightarrow> nat \<Rightarrow> tensor \<Rightarrow> tensor \<Rightarrow> tensor \<Rightarrow> tensor option \<Rightarrow> py_error + tensor" where
  "attention_dispatch lib a B N C q k v attn_mask =
     (if attention_mode a = ''xformers''
      then thenR (scaled_dot_product_attention lib MemEfficient q k v attn_mask
                    (attn_drop a) (scale a)) (\<lambda>x. reshape x [B, N, C])
      else if attention_mode a = ''flash''
      then thenR (scaled_dot_product_attention lib Flash q k v attn_mask
                    (attn_drop a) (scale a)) (\<lambda>x. reshape x [B, N, C])
      else if attention_mode a = ''math''
      then attention_math lib a B N C q k v attn_mask
      else if attention_mode a = ''rebased''
      then (if rebased_available lib then Inl AttributeError else Inl NameError)
      else if attention_mode a = ''ring''
      then (if ring_available lib then Inl AttributeError else Inl NameError)
      else Inl TypeError)"

definition Attention_forward :: "library \<Rightarrow> Attention \<Rightarrow> tensor \<Rightarrow> tensor option \<Rightarrow> py_error + tensor" where
  "Attention_forward lib a x attn_mask =
     (case shape x of
        [B, N, C] \<Rightarrow>
          thenR (attention_qkv a x B N C) (\<lambda>(q, k, v).
          thenR (attention_mask_repeat a attn_mask) (\<lambda>attn_mask.
          thenR (attention_pe a B N C q k) (\<lambda>(q, k).
          thenR (attention_dispatch lib a B N C q k v attn_mask) (\<lambda>x.
          thenR (Linear_forward (proj a) x) (\<lambda>x.
          Inr (dropout (proj_drop a) (attn_training a) (proj_noise lib) x))))))
      | _ \<Rightarrow> Inl ValueError)"

section \<open>The blocks and the forward pass\<close>

text \<open>\<^verbatim>\<open>TimestepEmbedder.forward\<close>: the frequency embedding, then linear, SiLU, linear.\<close>

definition TimestepEmbedder_forward :: "TimestepEmbedder \<Rightarrow> real list \<Rightarrow> py_error + tensor" where
  "TimestepEmbedder_forward e t =
     thenR (timestep_embedding t (frequency_embedding_size e) 10000) (\<lambda>t_freq.
     thenR (Linear_forward (mlp_0 e) t_freq) (\<lambda>h.
     Linear_forward (mlp_2 e) (tmap silu h)))"

text \<open>
  \<^verbatim>\<open>DiTBlock.forward\<close>. The six chunks of the modulation are unpacked; each of the two
  residual lines evaluates its operands from left to right. \<open>norm1\<close> and \<open>norm2\<close> hold the
  normalised size of the two layer norms, whose \<open>eps\<close> is \<open>1e-6\<close>.
\<close>

definition DiTBlock_forward :: "library \<Rightarrow> DiTBlock \<Rightarrow> tensor \<Rightarrow> tensor \<Rightarrow> tensor option \<Rightarrow> py_error + tensor" where
  "DiTBlock_forward lib blk x c attention_mask =
     thenR (Linear_forward (adaLN_modulation blk) (tmap silu c)) (\<lambda>md.
     thenR (chunk 6 1 md) (\<lambda>cs.
     case cs of
       [shift_msa, scale_msa, gate_msa, shift_mlp, scale_mlp, gate_mlp] \<Rightarrow>
         thenR (unsqueeze 1 gate_msa) (\<lambda>g.
         thenR (layer_norm (norm1 blk) (1 / 1000000) x) (\<lambda>n.
         thenR (modulate n shift_msa scale_msa) (\<lambda>mm.
         thenR (Attention_forward lib (attn blk) mm attention_mask) (\<lambda>a.
         thenR (tbin (*) g a) (\<lambda>ga.
         thenR (tbin (+) x ga) (\<lambda>x.
         thenR (unsqueeze 1 gate_mlp) (\<lambda>g.
         thenR (layer_norm (norm2 blk) (1 / 1000000) x) (\<lambda>n.
         thenR (modulate n shift_mlp scale_mlp) (\<lambda>mm.
         thenR (mlp_forward lib (mlp blk) mm) (\<lambda>a.
         thenR (tbin (*) g a) (\<lambda>ga.
         tbin (+) x ga)))))))))))
     | _ \<Rightarrow> Inl ValueError))"

text \<open>\<^verbatim>\<open>FinalLayer.forward\<close>.\<close>

definition FinalLayer_forward :: "FinalLayer \<Rightarrow> tensor \<Rightarrow> tensor \<Rightarrow> py_error + tensor" where
  "FinalLayer_forward f x c =
     thenR (Linear_forward (final_adaLN_modulation f) (tmap silu c)) (\<lambda>md.
     thenR (chunk 2 1 md) (\<lambda>cs.
     case cs of
       [shift, scl] \<Rightarrow>
         thenR (layer_norm (norm_final f) (1 / 1000000) x) (\<lambda>n.
         thenR (modulate n shift scl) (\<lambda>x.
         Linear_forward (linear f) x))
     | _ \<Rightarrow> Inl ValueError))"

text \<open>
  \<^verbatim>\<open>DiT.make_mask\<close>: the mask flattened per sample, its outer product with itself, and a
  head axis.
\<close>

definition make_mask :: "tensor \<Rightarrow> py_error + tensor" where
  "make_mask attention_mask =
     (if length (shape attention_mask) < 2 then Inl IndexError
      else
        let bs = hd (shape attention_mask);
            thw = prod_list (tl (shape attention_mask));
            am = \<lparr>shape = [bs, thw, 1], data = data attention_mask\<rparr>
        in thenR (matmul am (permute [0, 2, 1] am)) (\<lambda>am.
           unsqueeze 1 am))"

text \<open>
  The \<^verbatim>\<open>einops\<close> patterns of \<^verbatim>\<open>DiT.forward\<close>, each named after its pattern. A pattern
  that does not fit the shape raises \<^verbatim>\<open>EinopsError\<close>, a \<^verbatim>\<open>RuntimeError\<close>.
\<close>

definition rearrange_bt_n_c_to_bn_t_c :: "nat \<Rightarrow> tensor \<Rightarrow> py_error + tensor" where
  "rearrange_bt_n_c_to_bn_t_c t x =
     (case shape x of
        [bt, n, c] \<Rightarrow>
          if t = 0 \<or> bt mod t \<noteq> 0 then Inl RuntimeError
          else
            let x4 = permute [0, 2, 1, 3] \<lparr>shape = [bt div t, t, n, c], data = data x\<rparr>
            in Inr \<lparr>shape = [(bt div t) * n, t, c], data = data x4\<rparr>
      | _ \<Rightarrow> Inl RuntimeError)"

definition rearrange_bn_t_c_to_b_tn_c :: "nat \<Rightarrow> tensor \<Rightarrow> py_error + tensor" where
  "rearrange_bn_t_c_to_b_tn_c b x =
     (case shape x of
        [bn, t, c] \<Rightarrow>
          if b = 0 \<or> bn mod b \<noteq> 0 then Inl RuntimeError
          else
            let x4 = permute [0, 2, 1, 3] \<lparr>shape = [b, bn div b, t, c], data = data x\<rparr>
            in Inr \<lparr>shape = [b, t * (bn div b), c], data = data x4\<rparr>
      | _ \<Rightarrow> Inl RuntimeError)"

definition rearrange_b_tn_c_to_bt_n_c :: "nat \<Rightarrow> tensor \<Rightarrow> py_error + tensor" where
  "rearrange_b_tn_c_to_bt_n_c t x =
     (case shape x of
        [b, tn, c] \<Rightarrow>
          if t = 0 \<or> tn mod t \<noteq> 0 then Inl RuntimeError
          else Inr \<lparr>shape = [b * t, tn div t, c], data = data x\<rparr>
      | _ \<Rightarrow> Inl RuntimeError)"

definition repeat_b_c_to_bt_c :: "nat \<Rightarrow> tensor \<Rightarrow> py_error + tensor" where
  "repeat_b_c_to_bt_c t c =
     (case shape c of
        [b, w] \<Rightarrow>
          Inr \<lparr>shape = [b * t, w],
               data = concat (map (\<lambda>row. concat (replicate t row)) (chunks b w (data c)))\<rparr>
      | _ \<Rightarrow> Inl RuntimeError)"

definition rearrange_bt_c_h_w_to_b_t_c_h_w :: "nat \<Rightarrow> tensor \<Rightarrow> py_error + tensor" where
  "rearrange_bt_c_h_w_to_b_t_c_h_w t x =
     (case shape x of
        [bt, c, h, w] \<Rightarrow>
          if t = 0 \<or> bt mod t \<noteq> 0 then Inl RuntimeError
          else Inr \<lparr>shape = [bt div t, t, c, h, w], data = data x\<rparr>
      | _ \<Rightarrow> Inl RuntimeError)"

text \<open>
  The loop over the blocks. With gradient checkpointing the block is called through
  \<^verbatim>\<open>torch.utils.checkpoint\<close>, which computes the same forward value.
\<close>

fun run_blocks :: "library \<Rightarrow> DiT \<Rightarrow> DiTBlock list \<Rightarrow> tensor \<Rightarrow> tensor \<Rightarrow> tensor option \<Rightarrow> py_error + tensor" where
  "run_blocks lib m [] x c attention_mask = Inr x"
| "run_blocks lib m (block # bs) x c attention_mask =
     thenR (if gradient_checkpointing m \<and> training m
            then DiTBlock_forward lib block x c attention_mask
            else DiTBlock_forward lib block x c attention_mask) (\<lambda>x.
     run_blocks lib m bs x c attention_mask)"

text \<open>
  \<^verbatim>\<open>DiT.forward\<close> after the assignment of \<^verbatim>\<open>self.t\<close> (lines 395 to 424); \<open>st\<close> is the
  value of \<^verbatim>\<open>self.t\<close>.
\<close>

definition forward_body :: "library \<Rightarrow> DiT \<Rightarrow> tensor \<Rightarrow> nat \<Rightarrow> nat \<Rightarrow> nat \<Rightarrow> nat \<Rightarrow> nat \<Rightarrow> nat \<Rightarrow> real list \<Rightarrow> int list \<Rightarrow> tensor option \<Rightarrow> py_error + tensor" where
  "forward_body lib m x st B T C H W t y attention_mask =
     thenR (case attention_mask of
              None \<Rightarrow> Inr None
            | Some am \<Rightarrow> thenR (make_mask am) (\<lambda>am'. Inr (Some am'))) (\<lambda>attention_mask.
     let x = \<lparr>shape = [B * T, C, H, W], data = data x\<rparr> in
     thenR (patch_embed_forward lib (x_embedder m) x) (\<lambda>x.
     thenR (tbin (+) x (pos_embed m)) (\<lambda>x.
     thenR (rearrange_bt_n_c_to_bn_t_c st x) (\<lambda>x.
     thenR (tbin (+) x (temp_embed m)) (\<lambda>x.
     thenR (rearrange_bn_t_c_to_b_tn_c B x) (\<lambda>x.
     thenR (TimestepEmbedder_forward (t_embedder m) t) (\<lambda>t.
     thenR (if extras m = 2
            then (case y_embedder m of
                    None \<Rightarrow> Inl AttributeError
                  | Some e \<Rightarrow> thenR (LabelEmbedder_forward lib e y (training m) None) (\<lambda>y.
                               tbin (+) t y))
            else Inr t) (\<lambda>c.
     thenR (run_blocks lib m (blocks m) x c attention_mask) (\<lambda>x.
     thenR (rearrange_b_tn_c_to_bt_n_c st x) (\<lambda>x.
     thenR (repeat_b_c_to_bt_c st c) (\<lambda>c.
     thenR (FinalLayer_forward (final_layer m) x c) (\<lambda>x.
     thenR (unpatchify m x) (\<lambda>x.
     rearrange_bt_c_h_w_to_b_t_c_h_w st x)))))))))))))"

text \<open>
  \<^verbatim>\<open>DiT.forward\<close>: a 4-D input is refused, the shape is unpacked into five names, and
  \<^verbatim>\<open>self.t = T // self.patch_size_t\<close> is stored in the model. The result is the output or
  the exception, and the model after the call.
\<close>

definition forward :: "library \<Rightarrow> DiT \<Rightarrow> tensor \<Rightarrow> real list \<Rightarrow> int list \<Rightarrow> tensor option \<Rightarrow> (py_error + tensor) \<times> DiT" where
  "forward lib m x t y attention_mask =
     (if ndim x = 4 then (Inl NotImplementedError, m)
      else
        (case shape x of
           [B, T, C, H, W] \<Rightarrow>
             if patch_size_t m = 0 then (Inl ZeroDivisionError, m)
             else
               let st = T div patch_size_t m;
                   m' = m\<lparr>self_t := Some st\<rparr>
               in (forward_body lib m' x st B T C H W t y attention_mask, m')
         | _ \<Rightarrow> (Inl ValueError, m)))"

text \<open>
  \<^verbatim>\<open>cond_eps, uncond_eps = torch.split(eps, len(eps) // 2, dim=0)\<close>: the unpacking wants
  exactly two pieces.
\<close>

definition split_half :: "tensor \<Rightarrow> py_error + tensor \<times> tensor" where
  "split_half eps =
     (if shape eps = [] then Inl TypeError
      else
        let n = hd (shape eps);
            k = n div 2
        in if k = 0 then (if n = 0 then Inl ValueError else Inl RuntimeError)
           else if (n + k - 1) div k \<noteq> 2 then Inl ValueError
           else thenR (slice_axis 0 0 k eps) (\<lambda>a.
                thenR (slice_axis 0 k (2 * k) eps) (\<lambda>b.
                Inr (a, b))))"

text \<open>
  \<^verbatim>\<open>DiT.forward_with_cfg\<close> after the forward pass (lines 437 to 442), and the whole.
  \<^verbatim>\<open>model_out[:, :self.in_channels]\<close> slices axis 1 of the output of \<^verbatim>\<open>forward\<close>.
\<close>

definition cfg_combine :: "DiT \<Rightarrow> real \<Rightarrow> tensor \<Rightarrow> py_error + tensor" where
  "cfg_combine m cfg_scale model_out =
     thenR (slice_axis 1 0 (in_channels m) model_out) (\<lambda>eps.
     thenR (slice_axis 1 (in_channels m) (shape model_out ! 1) model_out) (\<lambda>rest.
     thenR (split_half eps) (\<lambda>(cond_eps, uncond_eps).
     thenR (tbin (-) cond_eps uncond_eps) (\<lambda>d.
     thenR (tbin (+) uncond_eps (tmap (\<lambda>v. cfg_scale * v) d)) (\<lambda>half_eps.
     thenR (cat 0 half_eps half_eps) (\<lambda>eps.
     cat 1 eps rest))))))"

definition forward_with_cfg :: "library \<Rightarrow> DiT \<Rightarrow> tensor \<Rightarrow> real list \<Rightarrow> int list \<Rightarrow> real \<Rightarrow> tensor option \<Rightarrow> (py_error + tensor) \<times> DiT" where
  "forward_with_cfg lib m x t y cfg_scale attention_mask =
     (if shape x = [] then (Inl TypeError, m)
      else
        (case thenR (slice_axis 0 0 (hd (shape x) div 2) x) (\<lambda>half. cat 0 half half) of
           Inl e \<Rightarrow> (Inl e, m)
         | Inr combined \<Rightarrow>
             (case forward lib m combined t y attention_mask of
                (Inl e, m') \<Rightarrow> (Inl e, m')
              | (Inr model_out, m') \<Rightarrow> (cfg_combine m' cfg_scale model_out, m'))))"

text \<open>
  A small model for concrete runs: one input channel with learned variance (two output
  channels), a 2 by 2 grid of 1 by 1 patches, hidden size 2, two heads, one block, one frame.
\<close>

definition example_linear :: "nat \<Rightarrow> nat \<Rightarrow> Linear" where
  "example_linear out_f in_f =
     \<lparr>weight = \<lparr>shape = [out_f, in_f], data = replicate (out_f * in_f) 1\<rparr>,
      bias = Some \<lparr>shape = [out_f], data = replicate out_f 0\<rparr>\<rparr>"

definition example_attention :: Attention where
  "example_attention =
     \<lparr>num_heads = 2, head_dim = 1, scale = 1, attention_mode = ''math'',
      attention_pe_mode = None, qkv = example_linear 6 2, attn_drop = 0,
      proj = example_linear 2 2, proj_drop = 0, hw = (2, 2), rope = Inr,
      attn_training = False\<rparr>"

definition example_block :: DiTBlock where
  "example_block =
     \<lparr>norm1 = 2, attn = example_attention, norm2 = 2,
      mlp = \<lparr>fc1 = example_linear 8 2, fc2 = example_linear 2 8\<rparr>,
      adaLN_modulation = example_linear 12 2\<rparr>"

definition example_model :: DiT where
  "example_model =
     \<lparr>gradient_checkpointing = False, learn_sigma = True, in_channels = 1, out_channels = 2,
      patch_size = 1, patch_size_t = 1, dit_num_heads = 2, extras = 1, hidden_size = 2,
      x_embedder = \<lparr>pe_patch_size = (1, 1), num_patches = 4,
                     proj_weight = \<lparr>shape = [2, 1, 1, 1], data = [1, 1]\<rparr>,
                     proj_bias = \<lparr>shape = [2], data = [0, 0]\<rparr>\<rparr>,
      t_embedder = \<lparr>mlp_0 = example_linear 2 256, mlp_2 = example_linear 2 2,
                     frequency_embedding_size = 256\<rparr>,
      y_embedder = None,
      pos_embed = \<lparr>shape = [1, 4, 2], data = replicate 8 0\<rparr>,
      temp_embed = \<lparr>shape = [1, 1, 2], data = replicate 2 0\<rparr>,
      blocks = [example_block],
      final_layer = \<lparr>norm_final = 2, linear = example_linear 2 2,
                      final_adaLN_modulation = example_linear 4 2\<rparr>,
      training = False, self_t = None\<rparr>"

text \<open>
  A library for concrete runs: no optional kernel, a fused attention that returns the
  values, a patch embedding that copies each pixel into both hidden features, an MLP that
  returns its input, constant initialisers, and every uniform sample equal to one half.
\<close>

definition example_library :: library where
  "example_library =
     \<lparr>rebased_available = False, ring_available = False,
      scaled_dot_product_attention = (\<lambda>kernel q k v mask dropout_p sc. Inr v),
      patch_embed_forward = (\<lambda>pe x. Inr \<lparr>shape = [hd (shape x), num_patches pe, 2],
                                             data = concat (map (\<lambda>v. [v, v]) (data x))\<rparr>),
      mlp_forward = (\<lambda>m x. Inr x),
      xavier_uniform = (\<lambda>sh. \<lparr>shape = sh, data = replicate (prod_list sh) (1 / 2)\<rparr>),
      normal = (\<lambda>std sh. \<lparr>shape = sh, data = replicate (prod_list sh) std\<rparr>),
      attn_noise = (\<lambda>i. 1 / 2), proj_noise = (\<lambda>i. 1 / 2), label_noise = (\<lambda>i. 1 / 2)\<rparr>"

section \<open>Unpatchify accepts square grids only\<close>

lemma int_sqrt_square: "int_sqrt (h * h) = h"
proof -
  have le: "h \<le> h * h" by (cases h) simp_all
  have split: "[1..<Suc (h * h)] = [1..<Suc h] @ [Suc h..<Suc (h * h)]"
    using le upt_add_eq_append [of 1 "Suc h" "h * h - h"] by simp
  have sq: "h * h < k * k" if "h < k" for k
    using that by (simp add: mult_strict_mono')
  have low: "filter (\<lambda>k. k * k \<le> h * h) [1..<Suc h] = [1..<Suc h]"
  proof -
    have "k * k \<le> h * h" if "k \<in> set [1..<Suc h]" for k
    proof -
      from that have "k \<le> h" unfolding set_upt atLeastLessThan_iff by linarith
      then show ?thesis by (simp add: mult_le_mono)
    qed
    then show ?thesis unfolding filter_id_conv by blast
  qed
  have high: "filter (\<lambda>k. k * k \<le> h * h) [Suc h..<Suc (h * h)] = []"
  proof -
    have "\<not> k * k \<le> h * h" if "k \<in> set [Suc h..<Suc (h * h)]" for k
    proof -
      from that have "h < k" unfolding set_upt atLeastLessThan_iff by linarith
      then show ?thesis using sq [of k] by simp
    qed
    then show ?thesis unfolding filter_empty_conv by blast
  qed
  have "filter (\<lambda>k. k * k \<le> h * h) [1..<Suc (h * h)] = [1..<Suc h]"
    by (simp only: split filter_append low high append_Nil2)
  then show ?thesis
    unfolding int_sqrt_def by (simp del: upt_Suc)
qed

lemma int_sqrt_exact_iff: "int_sqrt L * int_sqrt L = L \<longleftrightarrow> (\<exists>h. L = h * h)"
  using int_sqrt_square by metis

lemma shape_permute: "shape (permute p T) = map (\<lambda>a. shape T ! a) p"
  by (simp add: permute_def Let_def)

lemma unpatchify_eq:
  assumes sh: "shape x = [N, L, fst (pe_patch_size (x_embedder m)) * fst (pe_patch_size (x_embedder m)) * out_channels m]"
  shows "unpatchify m x =
     (if int_sqrt L * int_sqrt L = L
      then Inr \<lparr>shape = [N, out_channels m, int_sqrt L * fst (pe_patch_size (x_embedder m)),
                          int_sqrt L * fst (pe_patch_size (x_embedder m))],
                data = data (permute [0, 5, 1, 3, 2, 4]
                   \<lparr>shape = [N, int_sqrt L, int_sqrt L, fst (pe_patch_size (x_embedder m)),
                             fst (pe_patch_size (x_embedder m)), out_channels m],
                    data = data x\<rparr>)\<rparr>
      else Inl AssertionError)"
proof (cases "int_sqrt L * int_sqrt L = L")
  case False
  then show ?thesis by (simp add: unpatchify_def sh Let_def)
next
  case True
  define h where "h = int_sqrt L"
  define p where "p = fst (pe_patch_size (x_embedder m))"
  define c where "c = out_channels m"
  have hh: "h * h = L" using True by (simp add: h_def)
  have size1: "prod_list [N, h, h, p, p, c] = prod_list (shape x)"
    by (simp add: sh hh [symmetric] p_def c_def mult_ac)
  define x1 where "x1 = \<lparr>shape = [N, h, h, p, p, c], data = data x\<rparr>"
  have r1: "reshape x [N, h, h, p, p, c] = Inr x1"
    using size1 by (simp add: reshape_def x1_def)
  have sh2: "shape (permute [0, 5, 1, 3, 2, 4] x1) = [N, c, h, p, h, p]"
    by (simp add: shape_permute x1_def)
  have size2: "prod_list [N, c, h * p, h * p] = prod_list (shape (permute [0, 5, 1, 3, 2, 4] x1))"
    unfolding sh2 by (simp add: mult_ac)
  have "unpatchify m x = reshape (permute [0, 5, 1, 3, 2, 4] x1) [N, c, h * p, h * p]"
    using hh r1 sh2
    by (simp add: unpatchify_def sh Let_def thenR_def h_def [symmetric] p_def [symmetric] c_def [symmetric])
  also have "\<dots> = Inr \<lparr>shape = [N, c, h * p, h * p], data = data (permute [0, 5, 1, 3, 2, 4] x1)\<rparr>"
    using size2 by (simp add: reshape_def)
  finally show ?thesis
    using True by (simp add: h_def p_def c_def x1_def)
qed

text \<open>
  C10. On an input of shape \<open>(N, L, p * p * out_channels)\<close>, \<^verbatim>\<open>unpatchify\<close> returns
  a tensor exactly when \<open>L\<close> is a perfect square, and fails the assertion otherwise; the
  tensor it returns has the square shape \<open>(N, out_channels, h * p, h * p)\<close>, where \<open>h\<close>
  is the integer square root of \<open>L\<close>.
\<close>

theorem unpatchify_square_only:
  assumes "shape x = [N, L, fst (pe_patch_size (x_embedder m)) * fst (pe_patch_size (x_embedder m)) * out_channels m]"
  shows "((\<exists>y. unpatchify m x = Inr y) \<longleftrightarrow> (\<exists>h. L = h * h))
       \<and> ((\<forall>h. L \<noteq> h * h) \<longrightarrow> unpatchify m x = Inl AssertionError)
       \<and> (\<forall>y. unpatchify m x = Inr y \<longrightarrow>
             int_sqrt L * int_sqrt L = L
           \<and> shape y = [N, out_channels m, int_sqrt L * fst (pe_patch_size (x_embedder m)),
                         int_sqrt L * fst (pe_patch_size (x_embedder m))])"
proof -
  note eq = unpatchify_eq [OF assms]
  have a: "(\<exists>y. unpatchify m x = Inr y) \<longleftrightarrow> (\<exists>h. L = h * h)"
    unfolding eq int_sqrt_exact_iff [symmetric] by simp
  have b: "(\<forall>h. L \<noteq> h * h) \<longrightarrow> unpatchify m x = Inl AssertionError"
    unfolding eq using int_sqrt_exact_iff [of L] by auto
  have c: "\<forall>y. unpatchify m x = Inr y \<longrightarrow>
             int_sqrt L * int_sqrt L = L
           \<and> shape y = [N, out_channels m, int_sqrt L * fst (pe_patch_size (x_embedder m)),
                         int_sqrt L * fst (pe_patch_size (x_embedder m))]"
    unfolding eq by (auto split: if_splits)
  from a b c show ?thesis by blast
qed

theorem unpatchify_square_only_witness:
  "unpatchify example_model \<lparr>shape = [1, 4, 2], data = [1, 2, 3, 4, 5, 6, 7, 8]\<rparr>
     = Inr \<lparr>shape = [1, 2, 2, 2], data = [1, 3, 5, 7, 2, 4, 6, 8]\<rparr>
   \<and> (\<exists>h. (4::nat) = h * h)
   \<and> int_sqrt 4 * int_sqrt 4 = 4"
proof -
  let ?x = "\<lparr>shape = [1, 4, 2], data = [1, 2, 3, 4, 5, 6, 7, 8]\<rparr>"
  have sh: "shape ?x = [1, 4, fst (pe_patch_size (x_embedder example_model))
      * fst (pe_patch_size (x_embedder example_model)) * out_channels example_model]"
    by (simp add: example_model_def)
  have ev: "unpatchify example_model ?x
      = Inr \<lparr>shape = [1, 2, 2, 2], data = [1, 3, 5, 7, 2, 4, 6, 8]\<rparr>"
    by code_simp
  from unpatchify_square_only [OF sh] ev show ?thesis
    by blast
qed

section \<open>Label dropout\<close>

lemma where_scalar_same_length:
  "length c = length xs \<Longrightarrow> where_scalar c v xs = Inr (map2 (\<lambda>b x. if b then v else x) c xs)"
  by (simp add: where_scalar_def)

lemma forward_labels_no_dropout:
  "dropout_prob e = 0 \<Longrightarrow> forward_labels lib e labels train None = Inr labels"
  by (simp add: forward_labels_def)

lemma forward_labels_full_dropout:
  assumes "dropout_prob e = 1" and "\<forall>i<length labels. label_noise lib i < 1"
  shows "forward_labels lib e labels True None = Inr (map (\<lambda>l. int (num_classes e)) labels)"
proof -
  have eq: "map (\<lambda>i. label_noise lib i < dropout_prob e) [0..<length labels]
      = map (\<lambda>i. True) [0..<length labels]"
    using assms by simp
  have "token_drop lib e labels None
      = where_scalar (map (\<lambda>i. True) [0..<length labels]) (int (num_classes e)) labels"
    unfolding token_drop_def Let_def option.case eq ..
  also have "\<dots> = Inr (map2 (\<lambda>b x. if b then int (num_classes e) else x)
        (map (\<lambda>i. True) [0..<length labels]) labels)"
    by (rule where_scalar_same_length) simp
  also have "map2 (\<lambda>b x. if b then int (num_classes e) else x)
        (map (\<lambda>i. True) [0..<length labels]) labels = map (\<lambda>l. int (num_classes e)) labels"
    by (rule nth_equalityI) simp_all
  finally show ?thesis
    using assms by (simp add: forward_labels_def)
qed

lemma forward_labels_forced:
  assumes "length f = length labels"
  shows "forward_labels lib e labels train (Some f)
     = Inr (map2 (\<lambda>d l. if d = 1 then int (num_classes e) else l) f labels)"
proof -
  have "map2 (\<lambda>b x. if b then int (num_classes e) else x) (map (\<lambda>v. v = 1) f) labels
      = map2 (\<lambda>d l. if d = 1 then int (num_classes e) else l) f labels"
    using assms by (intro nth_equalityI) simp_all
  then show ?thesis
    using assms by (simp add: forward_labels_def token_drop_def where_scalar_same_length)
qed

text \<open>
  C6. With dropout probability 0 and no \<^verbatim>\<open>force_drop_ids\<close>, the labels that
  \<^verbatim>\<open>LabelEmbedder.forward\<close> looks up are the given ones, whatever the training flag. With
  dropout probability 1, training and no \<^verbatim>\<open>force_drop_ids\<close>, every label becomes the
  unconditional id \<^verbatim>\<open>num_classes\<close> (the uniform samples are below 1). With
  \<^verbatim>\<open>force_drop_ids\<close> of the labels' length, exactly the positions where it is 1 become
  the unconditional id and the others keep their label, whatever the training flag and the
  dropout probability.
\<close>

theorem label_dropout_policy:
  "(dropout_prob e = 0 \<longrightarrow> forward_labels lib e labels train None = Inr labels)
   \<and> (dropout_prob e = 1 \<and> (\<forall>i<length labels. label_noise lib i < 1) \<longrightarrow>
        forward_labels lib e labels True None = Inr (map (\<lambda>l. int (num_classes e)) labels))
   \<and> (length f = length labels \<longrightarrow>
        forward_labels lib e labels train (Some f)
          = Inr (map2 (\<lambda>d l. if d = 1 then int (num_classes e) else l) f labels))"
  using forward_labels_no_dropout [of e lib labels train]
    forward_labels_full_dropout [of e labels lib]
    forward_labels_forced [of f labels lib e train]
  by blast

theorem label_dropout_policy_witness:
  "forward_labels example_library (LabelEmbedder_init example_library 2 1 0) [0, 1, 0] True None
     = Inr [0, 1, 0]
   \<and> forward_labels example_library (LabelEmbedder_init example_library 2 1 1) [0, 1, 0] True None
     = Inr [2, 2, 2]
   \<and> forward_labels example_library (LabelEmbedder_init example_library 2 1 1) [0, 1, 0] False (Some [1, 0, 1])
     = Inr [2, 1, 2]"
proof -
  let ?e0 = "LabelEmbedder_init example_library 2 1 0"
  let ?e1 = "LabelEmbedder_init example_library 2 1 1"
  let ?labels = "[0, 1, 0] :: int list"
  let ?f = "[1, 0, 1] :: int list"
  have p0: "dropout_prob ?e0 = 0" and p1: "dropout_prob ?e1 = 1"
    and n1: "num_classes ?e1 = 2"
    by (simp_all add: LabelEmbedder_init_def)
  have noise: "\<forall>i<length ?labels. label_noise example_library i < 1"
    by (simp add: example_library_def)
  have len: "length ?f = length ?labels"
    by simp
  note t0 = label_dropout_policy [of ?e0 example_library ?labels True ?f]
  note t1 = label_dropout_policy [of ?e1 example_library ?labels False ?f]
  have a: "forward_labels example_library ?e0 ?labels True None = Inr ?labels"
    by (rule t0 [THEN conjunct1, THEN mp, OF p0])
  have b: "forward_labels example_library ?e1 ?labels True None
        = Inr (map (\<lambda>l. int (num_classes ?e1)) ?labels)"
    by (rule t1 [THEN conjunct2, THEN conjunct1, THEN mp, OF conjI [OF p1 noise]])
  have c: "forward_labels example_library ?e1 ?labels False (Some ?f)
        = Inr (map2 (\<lambda>d l. if d = 1 then int (num_classes ?e1) else l) ?f ?labels)"
    by (rule t1 [THEN conjunct2, THEN conjunct2, THEN mp, OF len])
  show ?thesis
    unfolding a b c n1 by simp
qed

section \<open>The timestep embedding, and dimension 1\<close>

lemma length_concat_const:
  assumes "\<And>x. x \<in> set xs \<Longrightarrow> length (f x) = n"
  shows "length (concat (map f xs)) = length xs * n"
  using assms by (induction xs) simp_all

lemma chunks_concat:
  assumes "\<And>x. x \<in> set xs \<Longrightarrow> length (f x) = n"
  shows "chunks (length xs) n (concat (map f xs)) = map f xs"
  using assms
proof (induction xs rule: rev_induct)
  case Nil
  then show ?case by (simp add: chunks_def)
next
  case (snoc x xs)
  have len: "length (concat (map f xs)) = length xs * n"
    using snoc.prems by (intro length_concat_const) simp
  have IH: "chunks (length xs) n (concat (map f xs)) = map f xs"
    using snoc by simp
  have fx: "length (f x) = n" using snoc.prems by simp
  have pre: "take n (drop (i * n) (concat (map f xs) @ f x)) = take n (drop (i * n) (concat (map f xs)))"
    if "i < length xs" for i
  proof -
    have "Suc i * n \<le> length xs * n" using that by (intro mult_le_mono1) simp
    then have "i * n + n \<le> length (concat (map f xs))" by (simp add: len)
    then show ?thesis by simp
  qed
  have main: "map (\<lambda>i. take n (drop (i * n) (concat (map f xs) @ f x))) [0..<length xs] = map f xs"
  proof -
    have "map (\<lambda>i. take n (drop (i * n) (concat (map f xs) @ f x))) [0..<length xs]
        = map (\<lambda>i. take n (drop (i * n) (concat (map f xs)))) [0..<length xs]"
    proof (rule map_cong [OF refl])
      fix i assume "i \<in> set [0..<length xs]"
      then have "i < length xs" by simp
      then show "take n (drop (i * n) (concat (map f xs) @ f x))
          = take n (drop (i * n) (concat (map f xs)))"
        by (rule pre)
    qed
    also have "\<dots> = map f xs"
      using IH by (simp only: chunks_def)
    finally show ?thesis .
  qed
  have last: "take n (drop (length xs * n) (concat (map f xs) @ f x)) = f x"
    using len fx by simp
  have "chunks (length (xs @ [x])) n (concat (map f (xs @ [x])))
      = map (\<lambda>i. take n (drop (i * n) (concat (map f xs) @ f x))) [0..<length xs]
        @ [take n (drop (length xs * n) (concat (map f xs) @ f x))]"
    by (simp add: chunks_def)
  also have "\<dots> = map f xs @ [f x]"
    by (simp only: main last)
  finally show ?case by simp
qed


lemma map2_append_rows: "map2 (@) (map f xs) (map g xs) = map (\<lambda>x. f x @ g x) xs"
  by (induction xs) simp_all

lemma cat_rows:
  assumes "\<And>x. x \<in> set xs \<Longrightarrow> length (f x) = a" and "\<And>x. x \<in> set xs \<Longrightarrow> length (g x) = b"
  shows "cat 1 \<lparr>shape = [length xs, a], data = concat (map f xs)\<rparr>
               \<lparr>shape = [length xs, b], data = concat (map g xs)\<rparr>
       = Inr \<lparr>shape = [length xs, a + b], data = concat (map (\<lambda>x. f x @ g x) xs)\<rparr>"
proof -
  have A: "chunks (length xs) a (concat (map f xs)) = map f xs"
    using assms(1) by (rule chunks_concat)
  have B: "chunks (length xs) b (concat (map g xs)) = map g xs"
    using assms(2) by (rule chunks_concat)
  show ?thesis
    by (simp add: cat_def Let_def A B map2_append_rows)
qed

lemma slice_rows:
  assumes "\<And>x. x \<in> set xs \<Longrightarrow> length (f x) = w"
  shows "slice_axis 1 0 1 \<lparr>shape = [length xs, w], data = concat (map f xs)\<rparr>
       = Inr \<lparr>shape = [length xs, min 1 w], data = concat (map (\<lambda>x. take (min 1 w) (f x)) xs)\<rparr>"
proof -
  have A: "chunks (length xs) w (concat (map f xs)) = map f xs"
    using assms by (rule chunks_concat)
  show ?thesis
    by (simp add: slice_axis_def Let_def A comp_def)
qed

lemma tmap_rows:
  "tmap h \<lparr>shape = sh, data = concat (map f xs)\<rparr>
     = \<lparr>shape = sh, data = concat (map (\<lambda>x. map h (f x)) xs)\<rparr>"
  by (simp add: tmap_def map_concat comp_def)

text \<open>
  For every dimension other than 1 the embedding is the cosines, then the sines, of the
  products of the timestep with the frequencies \<open>exp (- ln max_period * i / half)\<close>,
  then one zero when the dimension is odd.
\<close>

lemma timestep_embedding_formula:
  assumes mp: "0 < max_period" and d1: "dm \<noteq> 1"
  shows "timestep_embedding t dm max_period
     = Inr \<lparr>shape = [length t, dm],
            data = concat (map (\<lambda>tv.
                       map (\<lambda>i. cos (tv * exp (- ln max_period * real i / real (dm div 2)))) [0..<dm div 2]
                     @ map (\<lambda>i. sin (tv * exp (- ln max_period * real i / real (dm div 2)))) [0..<dm div 2]
                     @ (if odd dm then [0] else [])) t)\<rparr>"
proof -
  define half where "half = dm div 2"
  define freqs where "freqs = map (\<lambda>i. exp (- ln max_period * real i / real half)) [0..<half]"
  define C where "C = (\<lambda>tv. map (\<lambda>i. cos (tv * exp (- ln max_period * real i / real half))) [0..<half])"
  define S where "S = (\<lambda>tv. map (\<lambda>i. sin (tv * exp (- ln max_period * real i / real half))) [0..<half])"
  have args: "outer t freqs = \<lparr>shape = [length t, half], data = concat (map (\<lambda>tv. map (\<lambda>f. tv * f) freqs) t)\<rparr>"
    by (simp add: outer_def freqs_def)
  have cosr: "tmap cos (outer t freqs) = \<lparr>shape = [length t, half], data = concat (map C t)\<rparr>"
    unfolding args tmap_rows by (simp add: C_def freqs_def comp_def)
  have sinr: "tmap sin (outer t freqs) = \<lparr>shape = [length t, half], data = concat (map S t)\<rparr>"
    unfolding args tmap_rows by (simp add: S_def freqs_def comp_def)
  have emb: "cat 1 (tmap cos (outer t freqs)) (tmap sin (outer t freqs))
      = Inr \<lparr>shape = [length t, half + half], data = concat (map (\<lambda>tv. C tv @ S tv) t)\<rparr>"
    unfolding cosr sinr by (rule cat_rows) (simp_all add: C_def S_def)
  have unf: "timestep_embedding t dm max_period
      = thenR (cat 1 (tmap cos (outer t freqs)) (tmap sin (outer t freqs))) (\<lambda>embedding.
           if dm mod 2 \<noteq> 0
           then thenR (slice_axis 1 0 1 embedding) (\<lambda>col. cat 1 embedding (zeros_like col))
           else Inr embedding)"
    using mp by (simp add: timestep_embedding_def Let_def half_def freqs_def)
  define E where "E = \<lparr>shape = [length t, half + half], data = concat (map (\<lambda>tv. C tv @ S tv) t)\<rparr>"
  have step: "timestep_embedding t dm max_period
      = (if dm mod 2 \<noteq> 0
         then thenR (slice_axis 1 0 1 E) (\<lambda>col. cat 1 E (zeros_like col))
         else Inr E)"
    unfolding unf emb E_def [symmetric] by (simp add: thenR_def)
  show ?thesis
  proof (cases "odd dm")
    case False
    then have "half + half = dm" by (auto simp: half_def elim: evenE)
    with False show ?thesis
      unfolding step by (simp add: E_def C_def S_def half_def)
  next
    case True
    with d1 have h1: "1 \<le> half" and hd: "half + half + 1 = dm"
      by (auto simp: half_def elim!: oddE)
    have col: "slice_axis 1 0 1 E
        = Inr \<lparr>shape = [length t, min 1 (half + half)],
               data = concat (map (\<lambda>tv. take (min 1 (half + half)) (C tv @ S tv)) t)\<rparr>"
      unfolding E_def by (rule slice_rows) (simp add: C_def S_def)
    have m1: "min 1 (half + half) = 1" using h1 by simp
    have z: "zeros_like \<lparr>shape = [length t, 1], data = concat (map (\<lambda>tv. take 1 (C tv @ S tv)) t)\<rparr>
        = \<lparr>shape = [length t, 1], data = concat (map (\<lambda>tv. [0]) t)\<rparr>"
    proof -
      have "map (\<lambda>v. 0::real) (take 1 (C tv @ S tv)) = [0]" for tv
        using h1 by (cases "C tv") (simp_all add: C_def)
      then show ?thesis
        unfolding zeros_like_def tmap_rows by simp
    qed
    have pad: "cat 1 E \<lparr>shape = [length t, 1], data = concat (map (\<lambda>tv. [0]) t)\<rparr>
        = Inr \<lparr>shape = [length t, half + half + 1], data = concat (map (\<lambda>tv. (C tv @ S tv) @ [0]) t)\<rparr>"
      unfolding E_def by (rule cat_rows) (simp_all add: C_def S_def)
    have odd2: "dm mod 2 \<noteq> 0" using True by (simp add: odd_iff_mod_2_eq_one)
    have "timestep_embedding t dm max_period
        = thenR (slice_axis 1 0 1 E) (\<lambda>col. cat 1 E (zeros_like col))"
      unfolding step using odd2 by (rule if_P)
    also have "\<dots> = cat 1 E (zeros_like
        \<lparr>shape = [length t, 1], data = concat (map (\<lambda>tv. take 1 (C tv @ S tv)) t)\<rparr>)"
      unfolding col m1 thenR_def by (simp only: sum.case)
    also have "\<dots> = cat 1 E \<lparr>shape = [length t, 1], data = concat (map (\<lambda>tv. [0]) t)\<rparr>"
      by (simp only: z)
    also have "\<dots> = Inr \<lparr>shape = [length t, half + half + 1],
        data = concat (map (\<lambda>tv. (C tv @ S tv) @ [0]) t)\<rparr>"
      by (rule pad)
    finally have "timestep_embedding t dm max_period
        = Inr \<lparr>shape = [length t, half + half + 1], data = concat (map (\<lambda>tv. (C tv @ S tv) @ [0]) t)\<rparr>" .
    moreover have "Suc (dm div 2 + dm div 2) = dm"
      using hd by (simp add: half_def)
    ultimately show ?thesis
      using True by (simp add: C_def S_def half_def)
  qed
qed

text \<open>
  C5, at dimension 1. There \<open>half\<close> is 0, the embedding has no column, and so has
  \<^verbatim>\<open>embedding[:, :1]\<close>: the result has shape \<open>(1, 0)\<close>, with no zero column, although 1
  is odd.
\<close>

theorem timestep_embedding_dim_1:
  "timestep_embedding [0] 1 10000 = Inr \<lparr>shape = [1, 0], data = []\<rparr>"
  by (simp add: timestep_embedding_def Let_def thenR_def outer_def tmap_def cat_def chunks_def
      slice_axis_def zeros_like_def)

section \<open>The rows of the 1-D embedding\<close>

lemma sincos_1d_even:
  assumes "even embed_dim"
  shows "get_1d_sincos_pos_embed_from_grid embed_dim pos
     = Inr \<lparr>shape = [length (data pos), embed_dim],
            data = concat (map (\<lambda>p.
                       map (\<lambda>i. sin (p / 10000 powr (2 * real i / real embed_dim))) [0..<embed_dim div 2]
                     @ map (\<lambda>i. cos (p / 10000 powr (2 * real i / real embed_dim))) [0..<embed_dim div 2])
                     (data pos))\<rparr>"
proof -
  define half where "half = embed_dim div 2"
  define omega where "omega = map (\<lambda>w. 1 / (10000 powr w))
      (map (\<lambda>w. w / (real embed_dim / 2)) (map real [0..<half]))"
  define Sn where "Sn = (\<lambda>p. map (\<lambda>i. sin (p / 10000 powr (2 * real i / real embed_dim))) [0..<half])"
  define Cs where "Cs = (\<lambda>p. map (\<lambda>i. cos (p / 10000 powr (2 * real i / real embed_dim))) [0..<half])"
  have dd: "half + half = embed_dim"
    using assms by (auto simp: half_def elim: evenE)
  have om: "omega = map (\<lambda>i. 1 / 10000 powr (2 * real i / real embed_dim)) [0..<half]"
    by (simp add: omega_def comp_def mult.commute)
  have out: "outer (data pos) omega
      = \<lparr>shape = [length (data pos), half], data = concat (map (\<lambda>p. map (\<lambda>w. p * w) omega) (data pos))\<rparr>"
    by (simp add: outer_def om)
  have sn: "tmap sin (outer (data pos) omega)
      = \<lparr>shape = [length (data pos), half], data = concat (map Sn (data pos))\<rparr>"
    unfolding out tmap_rows by (simp add: Sn_def om comp_def)
  have cs: "tmap cos (outer (data pos) omega)
      = \<lparr>shape = [length (data pos), half], data = concat (map Cs (data pos))\<rparr>"
    unfolding out tmap_rows by (simp add: Cs_def om comp_def)
  have "get_1d_sincos_pos_embed_from_grid embed_dim pos
      = cat 1 (tmap sin (outer (data pos) omega)) (tmap cos (outer (data pos) omega))"
    using assms
    by (simp add: get_1d_sincos_pos_embed_from_grid_def Let_def omega_def half_def comp_def)
  also have "\<dots> = Inr \<lparr>shape = [length (data pos), half + half],
      data = concat (map (\<lambda>p. Sn p @ Cs p) (data pos))\<rparr>"
    unfolding sn cs by (rule cat_rows) (simp_all add: Sn_def Cs_def)
  finally show ?thesis
    unfolding dd by (simp add: Sn_def Cs_def half_def)
qed

lemma sincos_1d_odd:
  "odd embed_dim \<Longrightarrow> get_1d_sincos_pos_embed_from_grid embed_dim pos = Inl AssertionError"
  by (simp add: get_1d_sincos_pos_embed_from_grid_def odd_iff_mod_2_eq_one)

text \<open>
  C4. For an even dimension the 1-D embedding of the positions \<open>pos\<close> has shape
  \<open>(len pos, embed_dim)\<close>, and its row for the position \<open>p\<close> is the sines, then the
  cosines, of the angles \<open>p / 10000 ^ (2 i / embed_dim)\<close> for \<open>i\<close> below half the
  dimension. For an odd dimension the assertion fails. The result is a function of the
  dimension and the positions alone.
\<close>

theorem sincos_1d_rows:
  "(even embed_dim \<longrightarrow>
      get_1d_sincos_pos_embed_from_grid embed_dim pos
        = Inr \<lparr>shape = [length (data pos), embed_dim],
               data = concat (map (\<lambda>p.
                       map (\<lambda>i. sin (p / 10000 powr (2 * real i / real embed_dim))) [0..<embed_dim div 2]
                     @ map (\<lambda>i. cos (p / 10000 powr (2 * real i / real embed_dim))) [0..<embed_dim div 2])
                     (data pos))\<rparr>)
   \<and> (odd embed_dim \<longrightarrow> get_1d_sincos_pos_embed_from_grid embed_dim pos = Inl AssertionError)"
  using sincos_1d_even [of embed_dim pos] sincos_1d_odd [of embed_dim pos] by blast

theorem sincos_1d_rows_witness:
  "get_1d_sincos_pos_embed_from_grid 2 \<lparr>shape = [2], data = [0, 1]\<rparr>
     = Inr \<lparr>shape = [2, 2], data = [0, 1, sin 1, cos 1]\<rparr>
   \<and> get_1d_sincos_pos_embed_from_grid 3 \<lparr>shape = [2], data = [0, 1]\<rparr> = Inl AssertionError"
proof -
  let ?pos = "\<lparr>shape = [2], data = [0, 1]\<rparr> :: tensor"
  note t2 = sincos_1d_rows [of 2 ?pos]
  note t3 = sincos_1d_rows [of 3 ?pos]
  have e2: "even (2::nat)" and o3: "odd (3::nat)" by simp_all
  have a: "get_1d_sincos_pos_embed_from_grid 2 ?pos
      = Inr \<lparr>shape = [2, 2], data = [0, 1, sin 1, cos 1]\<rparr>"
    using t2 [THEN conjunct1, THEN mp, OF e2] by simp
  have b: "get_1d_sincos_pos_embed_from_grid 3 ?pos = Inl AssertionError"
    by (rule t3 [THEN conjunct2, THEN mp, OF o3])
  from a b show ?thesis by (rule conjI)
qed

section \<open>Unsupported and unavailable attention backends\<close>

lemma Attention_forward_stages:
  assumes "shape x = [B, N, C]"
    and "attention_qkv a x B N C = Inr (q, k, v)"
    and "attention_mask_repeat a attn_mask = Inr attn_mask'"
    and "attention_pe a B N C q k = Inr (q', k')"
  shows "Attention_forward lib a x attn_mask
     = thenR (attention_dispatch lib a B N C q' k' v attn_mask') (\<lambda>x.
       thenR (Linear_forward (proj a) x) (\<lambda>x.
       Inr (dropout (proj_drop a) (attn_training a) (proj_noise lib) x)))"
  using assms by (simp add: Attention_forward_def thenR_def)

lemma attention_dispatch_unsupported:
  assumes "attention_mode a \<notin> {''xformers'', ''flash'', ''math'', ''rebased'', ''ring''}"
  shows "attention_dispatch lib a B N C q k v attn_mask = Inl TypeError"
  using assms by (simp add: attention_dispatch_def)

lemma attention_dispatch_unavailable:
  assumes "attention_mode a = ''rebased'' \<and> \<not> rebased_available lib
         \<or> attention_mode a = ''ring'' \<and> \<not> ring_available lib"
  shows "attention_dispatch lib a B N C q k v attn_mask = Inl NameError"
  using assms by (auto simp: attention_dispatch_def)

lemma example_attention_qkv:
  "attention_qkv (example_attention\<lparr>attention_mode := md\<rparr>) \<lparr>shape = [1, 1, 2], data = [1, 2]\<rparr> 1 1 2
   = Inr (\<lparr>shape = [1, 2, 1, 1], data = [3, 3]\<rparr>, \<lparr>shape = [1, 2, 1, 1], data = [3, 3]\<rparr>,
          \<lparr>shape = [1, 2, 1, 1], data = [3, 3]\<rparr>)"
  by code_simp

text \<open>
  C7, on the example attention with one token. With the backend string \<^verbatim>\<open>'foo'\<close> the
  call fails at its first use with \<^verbatim>\<open>TypeError\<close> (from \<^verbatim>\<open>raise NotImplemented\<close>), and with
  \<^verbatim>\<open>'rebased'\<close> in an environment without that kernel it fails with \<^verbatim>\<open>NameError\<close>: no
  backend is substituted, and neither error names the unsupported backend.
\<close>

theorem attention_backend_errors:
  "Attention_forward example_library (example_attention\<lparr>attention_mode := ''foo''\<rparr>)
      \<lparr>shape = [1, 1, 2], data = [1, 2]\<rparr> None = Inl TypeError
   \<and> Attention_forward example_library (example_attention\<lparr>attention_mode := ''rebased''\<rparr>)
      \<lparr>shape = [1, 1, 2], data = [1, 2]\<rparr> None = Inl NameError"
proof -
  let ?x = "\<lparr>shape = [1, 1, 2], data = [1, 2]\<rparr> :: tensor"
  let ?q = "\<lparr>shape = [1, 2, 1, 1], data = [3, 3]\<rparr> :: tensor"
  have sh: "shape ?x = [1, 1, 2]" by simp
  have m: "attention_mask_repeat (example_attention\<lparr>attention_mode := md\<rparr>) None = Inr None" for md
    by (simp add: attention_mask_repeat_def)
  have pe: "attention_pe (example_attention\<lparr>attention_mode := md\<rparr>) 1 1 2 ?q ?q = Inr (?q, ?q)" for md
    by (simp add: attention_pe_def example_attention_def)
  have d1: "attention_dispatch example_library (example_attention\<lparr>attention_mode := ''foo''\<rparr>)
      1 1 2 ?q ?q ?q None = Inl TypeError"
    by (rule attention_dispatch_unsupported) (simp add: example_attention_def)
  have d2: "attention_dispatch example_library (example_attention\<lparr>attention_mode := ''rebased''\<rparr>)
      1 1 2 ?q ?q ?q None = Inl NameError"
    by (rule attention_dispatch_unavailable) (simp add: example_attention_def example_library_def)
  show ?thesis
    unfolding Attention_forward_stages [OF sh example_attention_qkv m pe] d1 d2
    by (simp add: thenR_def)
qed

section \<open>The rank guard of the forward pass\<close>

lemma forward_rank_4:
  "ndim x = 4 \<Longrightarrow> forward lib m x t y attention_mask = (Inl NotImplementedError, m)"
  by (simp add: forward_def)

lemma forward_rank_other:
  assumes "ndim x \<noteq> 4" and "ndim x \<noteq> 5"
  shows "forward lib m x t y attention_mask = (Inl ValueError, m)"
proof -
  have "length (shape x) \<noteq> 5" using assms by (simp add: ndim_def)
  then have "(case shape x of
        [B, T, C, H, W] \<Rightarrow> f B T C H W
      | _ \<Rightarrow> (Inl ValueError, m)) = (Inl ValueError, m)" for f :: "nat \<Rightarrow> nat \<Rightarrow> nat \<Rightarrow> nat \<Rightarrow> nat \<Rightarrow> (py_error + tensor) \<times> DiT"
    by (auto split: list.splits)
  then show ?thesis
    using assms by (simp add: forward_def)
qed

lemma forward_rank_5:
  assumes "shape x = [B, T, C, H, W]"
  shows "forward lib m x t y attention_mask =
     (if patch_size_t m = 0 then (Inl ZeroDivisionError, m)
      else (forward_body lib (m\<lparr>self_t := Some (T div patch_size_t m)\<rparr>) x (T div patch_size_t m)
              B T C H W t y attention_mask,
            m\<lparr>self_t := Some (T div patch_size_t m)\<rparr>))"
  using assms by (simp add: forward_def ndim_def Let_def)

text \<open>
  C8, as the code has it. A 4-D input raises \<^verbatim>\<open>NotImplementedError\<close>. An input of any
  other rank than 4 and 5 fails with \<^verbatim>\<open>ValueError\<close>, at the unpacking of \<^verbatim>\<open>x.shape\<close> into
  five names. A 5-D input passes both (with a temporal patch size other than 0): the result
  is that of the rest of the forward pass.
\<close>

theorem forward_rank_guard:
  "(ndim x = 4 \<longrightarrow> forward lib m x t y attention_mask = (Inl NotImplementedError, m))
   \<and> (ndim x \<noteq> 4 \<and> ndim x \<noteq> 5 \<longrightarrow> forward lib m x t y attention_mask = (Inl ValueError, m))
   \<and> (shape x = [B, T, C, H, W] \<and> patch_size_t m \<noteq> 0 \<longrightarrow>
        fst (forward lib m x t y attention_mask)
          = forward_body lib (m\<lparr>self_t := Some (T div patch_size_t m)\<rparr>) x (T div patch_size_t m)
              B T C H W t y attention_mask)"
  using forward_rank_4 [of x lib m t y attention_mask]
    forward_rank_other [of x lib m t y attention_mask]
    forward_rank_5 [of x B T C H W lib m t y attention_mask]
  by simp

theorem forward_rank_guard_witness:
  "forward example_library example_model \<lparr>shape = [1, 1, 2, 2], data = [1, 2, 3, 4]\<rparr> [0] [] None
     = (Inl NotImplementedError, example_model)
   \<and> forward example_library example_model \<lparr>shape = [2, 2], data = [1, 2, 3, 4]\<rparr> [0] [] None
     = (Inl ValueError, example_model)
   \<and> fst (forward example_library example_model \<lparr>shape = [1, 1, 1, 2, 2], data = [1, 2, 3, 4]\<rparr> [0] [] None)
     = forward_body example_library (example_model\<lparr>self_t := Some 1\<rparr>)
         \<lparr>shape = [1, 1, 1, 2, 2], data = [1, 2, 3, 4]\<rparr> 1 1 1 1 2 2 [0] [] None"
proof -
  let ?x4 = "\<lparr>shape = [1, 1, 2, 2], data = [1, 2, 3, 4]\<rparr> :: tensor"
  let ?x2 = "\<lparr>shape = [2, 2], data = [1, 2, 3, 4]\<rparr> :: tensor"
  let ?x5 = "\<lparr>shape = [1, 1, 1, 2, 2], data = [1, 2, 3, 4]\<rparr> :: tensor"
  have r4: "ndim ?x4 = 4" and r2: "ndim ?x2 \<noteq> 4 \<and> ndim ?x2 \<noteq> 5"
    and r5: "shape ?x5 = [1, 1, 1, 2, 2] \<and> patch_size_t example_model \<noteq> 0"
    and d: "(1::nat) div patch_size_t example_model = 1"
    by (simp_all add: ndim_def example_model_def)
  have a: "forward example_library example_model ?x4 [0] [] None
      = (Inl NotImplementedError, example_model)"
    by (rule forward_rank_guard [THEN conjunct1, THEN mp, OF r4])
  have b: "forward example_library example_model ?x2 [0] [] None = (Inl ValueError, example_model)"
    by (rule forward_rank_guard [THEN conjunct2, THEN conjunct1, THEN mp, OF r2])
  have c: "fst (forward example_library example_model ?x5 [0] [] None)
      = forward_body example_library (example_model\<lparr>self_t := Some (1 div patch_size_t example_model)\<rparr>)
          ?x5 (1 div patch_size_t example_model) 1 1 1 2 2 [0] [] None"
    by (rule forward_rank_guard [THEN conjunct2, THEN conjunct2, THEN mp, OF r5])
  show ?thesis
    using a b c unfolding d by simp
qed

text \<open>
  C8, as stated, fails on a 3-D input: it has fewer than five axes, and the error is
  \<^verbatim>\<open>ValueError\<close>, not the \<^verbatim>\<open>NotImplementedError\<close> of the guard.
\<close>

theorem forward_rank_3_counterexample:
  "ndim \<lparr>shape = [1, 1, 1], data = [0]\<rparr> < 5
   \<and> fst (forward example_library example_model \<lparr>shape = [1, 1, 1], data = [0]\<rparr> [0] [] None)
       = Inl ValueError
   \<and> fst (forward example_library example_model \<lparr>shape = [1, 1, 1], data = [0]\<rparr> [0] [] None)
       \<noteq> Inl NotImplementedError"
  by (simp add: forward_def ndim_def)

section \<open>What the forward pass writes\<close>

text \<open>
  C2, as the code has it. The forward pass writes one attribute of the model,
  \<^verbatim>\<open>self.t = T // self.patch_size_t\<close>, when the input is 5-D and the temporal patch size is
  not 0, also when the call fails later; every other attribute is left as it was, and a
  call that fails before the assignment leaves the model unchanged.
\<close>

theorem forward_state:
  "snd (forward lib m x t y attention_mask)
     = (if ndim x = 5 \<and> patch_size_t m \<noteq> 0
        then m\<lparr>self_t := Some (shape x ! 1 div patch_size_t m)\<rparr>
        else m)"
proof (cases "ndim x = 5")
  case True
  then obtain B T C H W where sh: "shape x = [B, T, C, H, W]"
    by (auto simp: ndim_def length_Suc_conv eval_nat_numeral)
  show ?thesis
    using True by (simp add: forward_rank_5 [OF sh] sh)
next
  case False
  then show ?thesis
    by (cases "ndim x = 4") (simp_all add: forward_rank_4 forward_rank_other)
qed

theorem forward_state_witness:
  "snd (forward example_library example_model
        \<lparr>shape = [1, 1, 1, 2, 2], data = [1, 2, 3, 4]\<rparr> [0] [] None)
     = example_model\<lparr>self_t := Some 1\<rparr>
   \<and> snd (forward example_library example_model \<lparr>shape = [1, 1, 2, 2], data = [1, 2, 3, 4]\<rparr> [0] [] None)
     = example_model"
proof -
  have p: "patch_size_t example_model = 1" by (simp add: example_model_def)
  show ?thesis
    unfolding forward_state by (simp add: ndim_def p)
qed

text \<open>
  C2, as stated, fails: the example model has no \<^verbatim>\<open>t\<close> before its first forward call and
  \<open>t = 1\<close> after it.
\<close>

theorem forward_writes_t_counterexample:
  "self_t example_model = None
   \<and> self_t (snd (forward example_library example_model
        \<lparr>shape = [1, 1, 1, 2, 2], data = [1, 2, 3, 4]\<rparr> [0] [] None)) = Some 1
   \<and> snd (forward example_library example_model
        \<lparr>shape = [1, 1, 1, 2, 2], data = [1, 2, 3, 4]\<rparr> [0] [] None) \<noteq> example_model"
proof -
  let ?x = "\<lparr>shape = [1, 1, 1, 2, 2], data = [1, 2, 3, 4]\<rparr> :: tensor"
  have sh: "shape ?x = [1, 1, 1, 2, 2]" by simp
  have p: "patch_size_t example_model = 1" and n: "self_t example_model = None"
    by (simp_all add: example_model_def)
  have s: "self_t (snd (forward example_library example_model ?x [0] [] None)) = Some 1"
    unfolding forward_rank_5 [OF sh] by (simp add: p)
  from n s show ?thesis by auto
qed

section \<open>Classifier-free guidance slices the time axis\<close>

lemma forward_with_cfg_eq:
  assumes "shape x \<noteq> []"
    and "thenR (slice_axis 0 0 (hd (shape x) div 2) x) (\<lambda>half. cat 0 half half) = Inr combined"
    and "forward lib m combined t y attention_mask = (Inr model_out, m')"
  shows "forward_with_cfg lib m x t y cfg_scale attention_mask = (cfg_combine m' cfg_scale model_out, m')"
  using assms by (simp add: forward_with_cfg_def)

text \<open>
  C1, on outputs of the forward pass of the example model (one input channel, two output
  channels), with guidance scale 3. The output has axes (batch, time, channel, height,
  width), and \<^verbatim>\<open>[:, :in_channels]\<close> takes the first frame. With one frame, both channels
  of the conditional sample \<open>(10, 20)\<close> and of the unconditional one \<open>(0, 0)\<close> become
  the blend \<open>(30, 60)\<close>: the learned-variance channel is guided. With two frames, the
  second frame \<open>(30, 40)\<close>, \<open>(0, 0)\<close> is returned as it is: its first channel is not
  guided.
\<close>

theorem cfg_guides_time_axis:
  "cfg_combine example_model 3 \<lparr>shape = [2, 1, 2, 1, 1], data = [10, 20, 0, 0]\<rparr>
     = Inr \<lparr>shape = [2, 1, 2, 1, 1], data = [30, 60, 30, 60]\<rparr>
   \<and> cfg_combine example_model 3 \<lparr>shape = [2, 2, 2, 1, 1], data = [10, 20, 30, 40, 0, 0, 0, 0]\<rparr>
     = Inr \<lparr>shape = [2, 2, 2, 1, 1], data = [30, 60, 30, 40, 30, 60, 0, 0]\<rparr>"
  by code_simp

end
